theory Spec2Isabelle
  imports Complex_Main
begin

section \<open>The transport seen by the motion controller\<close>

text \<open>
  \<^verbatim>\<open>MotionController\<close> (src/sparky/core/motion.py) talks to the robot through
  \<^verbatim>\<open>self.conn.datachannel.pub_sub.publish_request_new(topic, payload)\<close>. The
  call is awaited and either returns a response dictionary or raises. The two
  constant tables \<^verbatim>\<open>RTC_TOPIC\<close> and \<^verbatim>\<open>SPORT_CMD\<close> are imported from the
  driver package \<^verbatim>\<open>go2_webrtc_driver.constants\<close>: a request records the key of
  \<^verbatim>\<open>RTC_TOPIC\<close> it was sent on, and \<^verbatim>\<open>SPORT_CMD\<close> is a parameter of every
  operation (an association list from command name to api id, in the table's order).
\<close>

datatype topic = MOTION_SWITCHER | SPORT_MOD

datatype py_value = PyBool bool | PyNum real | PyStr string

type_synonym py_dict = "(string \<times> py_value) list"

record payload =
  api_id :: int
  parameter :: "py_dict option"

text \<open>
  A response either carries \<^verbatim>\<open>response['data']['header']['status']['code']\<close> or
  lacks that path, in which case reading the code raises inside the caller.
\<close>

datatype response = StatusCode int | Malformed

text \<open>
  The awaited call returns a response, or raises an instance of \<^verbatim>\<open>Exception\<close>
  (\<open>Raises\<close>), or raises a \<^verbatim>\<open>BaseException\<close> that is not an \<^verbatim>\<open>Exception\<close>
  (\<open>RaisesBase\<close>: \<^verbatim>\<open>asyncio.CancelledError\<close>, \<^verbatim>\<open>KeyboardInterrupt\<close>,
  \<^verbatim>\<open>SystemExit\<close>).
\<close>

datatype outcome = Reply response | Raises string | RaisesBase string

text \<open>
  What a body can raise: a missing dictionary key, a response without a status code
  and what the transport raised. The first three are instances of \<^verbatim>\<open>Exception\<close>;
  \<open>BaseException_only\<close> is not, and \<^verbatim>\<open>except Exception\<close> does not catch it.
\<close>

datatype py_exception =
    KeyError string
  | ResponseError
  | TransportError string
  | BaseException_only string

fun is_Exception :: "py_exception \<Rightarrow> bool" where
  "is_Exception (BaseException_only m) = False"
| "is_Exception e = True"

text \<open>
  What an operation does to the outside world, in order: the requests it published
  and the \<^verbatim>\<open>asyncio.sleep\<close> calls it awaited. The transport may answer
  depending on everything that happened before. Calls to \<^verbatim>\<open>logger\<close> are not
  part of the model, and a sleep always runs to its end (a cancellation that arrives
  during \<^verbatim>\<open>asyncio.sleep\<close> is not raised by the transport and is left out).
\<close>

datatype effect = Request topic payload | Sleep real

type_synonym transport = "effect list \<Rightarrow> topic \<Rightarrow> payload \<Rightarrow> outcome"

definition publish_request_new ::
  "transport \<Rightarrow> effect list \<Rightarrow> topic \<Rightarrow> payload \<Rightarrow> (py_exception + response) \<times> effect list" where
  "publish_request_new tr tc tp pl =
     ((case tr tc tp pl of
         Raises m \<Rightarrow> Inl (TransportError m)
       | RaisesBase m \<Rightarrow> Inl (BaseException_only m)
       | Reply r \<Rightarrow> Inr r),
      tc @ [Request tp pl])"

definition status_code :: "response \<Rightarrow> py_exception + int" where
  "status_code r = (case r of StatusCode c \<Rightarrow> Inr c | Malformed \<Rightarrow> Inl ResponseError)"

text \<open>\<^verbatim>\<open>SPORT_CMD[key]\<close>: a missing key raises \<^verbatim>\<open>KeyError\<close>.\<close>

definition sport_cmd_item :: "(string \<times> int) list \<Rightarrow> string \<Rightarrow> py_exception + int" where
  "sport_cmd_item cmds k = (case map_of cmds k of None \<Rightarrow> Inl (KeyError k) | Some i \<Rightarrow> Inr i)"

text \<open>
  Every method of the controller is one \<^verbatim>\<open>try: ... except Exception: return False\<close>.
  The body is modelled by a function that may end in \<open>Inl\<close> (raised) and keeps the
  assignments made before the raise. The handler turns the raise of an instance of
  \<^verbatim>\<open>Exception\<close> into the result \<open>False\<close>; any other raise leaves the method, so
  the result of a method is \<open>Inr\<close> of what it returns or \<open>Inl\<close> of what it lets
  through.
\<close>

definition except_Exception ::
  "(py_exception + bool) \<times> 's \<times> effect list \<Rightarrow> (py_exception + bool) \<times> 's \<times> effect list" where
  "except_Exception r =
     (case r of
        (Inl e, s, tc) \<Rightarrow> if is_Exception e then (Inr False, s, tc) else (Inl e, s, tc)
      | (Inr b, s, tc) \<Rightarrow> (Inr b, s, tc))"

section \<open>MotionController\<close>

text \<open>
  The controller's three attributes; \<^verbatim>\<open>conn\<close> is the connection object, kept as a
  handle, its behaviour being the transport. Speeds and durations are Python floats
  that are only passed on and negated; they are reals here. The parameter
  \<^verbatim>\<open>verify\<close> is passed along as in the source, which never reads it.
\<close>

record MotionController =
  conn :: nat
  current_mode :: "string option"
  is_moving :: bool

definition switch_payload :: "string \<Rightarrow> payload" where
  "switch_payload mode = \<lparr>api_id = 1002, parameter = Some [(''name'', PyStr mode)]\<rparr>"

definition move_payload :: "int \<Rightarrow> real \<Rightarrow> real \<Rightarrow> real \<Rightarrow> payload" where
  "move_payload i x y z =
     \<lparr>api_id = i, parameter = Some [(''x'', PyNum x), (''y'', PyNum y), (''z'', PyNum z)]\<rparr>"

definition stop_payload :: "int \<Rightarrow> payload" where
  "stop_payload i = \<lparr>api_id = i, parameter = None\<rparr>"

text \<open>The reply the methods test for: a response whose status code is \<open>0\<close>.\<close>

definition accepted :: "transport \<Rightarrow> effect list \<Rightarrow> topic \<Rightarrow> payload \<Rightarrow> bool" where
  "accepted tr tc tp pl = (tr tc tp pl = Reply (StatusCode 0))"

text \<open>
  How a method ends when its request is not accepted: it returns \<open>False\<close>, unless the
  transport raised outside \<^verbatim>\<open>Exception\<close>, which the method lets through.
\<close>

definition refusal :: "transport \<Rightarrow> effect list \<Rightarrow> topic \<Rightarrow> payload \<Rightarrow> py_exception + bool" where
  "refusal tr tc tp pl =
     (case tr tc tp pl of RaisesBase m \<Rightarrow> Inl (BaseException_only m) | _ \<Rightarrow> Inr False)"

definition switch_motion_mode_try ::
  "transport \<Rightarrow> MotionController \<Rightarrow> effect list \<Rightarrow> string
     \<Rightarrow> (py_exception + bool) \<times> MotionController \<times> effect list" where
  "switch_motion_mode_try tr mc tc mode =
     (if mode \<in> set [''normal'', ''ai''] then (Inr False, mc, tc)
      else
        (case publish_request_new tr tc MOTION_SWITCHER (switch_payload mode) of
           (Inl e, tc1) \<Rightarrow> (Inl e, mc, tc1)
         | (Inr r, tc1) \<Rightarrow>
             (case status_code r of
                Inl e \<Rightarrow> (Inl e, mc, tc1)
              | Inr c \<Rightarrow>
                  if c = 0 then (Inr True, mc\<lparr>current_mode := Some mode\<rparr>, tc1 @ [Sleep 5])
                  else (Inr False, mc, tc1))))"

definition switch_motion_mode ::
  "transport \<Rightarrow> MotionController \<Rightarrow> effect list \<Rightarrow> string
     \<Rightarrow> (py_exception + bool) \<times> MotionController \<times> effect list" where
  "switch_motion_mode tr mc tc mode = except_Exception (switch_motion_mode_try tr mc tc mode)"

definition move_try ::
  "(string \<times> int) list \<Rightarrow> transport \<Rightarrow> MotionController \<Rightarrow> effect list
     \<Rightarrow> real \<Rightarrow> real \<Rightarrow> real \<Rightarrow> real \<Rightarrow> bool
     \<Rightarrow> (py_exception + bool) \<times> MotionController \<times> effect list" where
  "move_try cmds tr mc tc x y z duration verify =
     (case sport_cmd_item cmds ''Move'' of
        Inl e \<Rightarrow> (Inl e, mc, tc)
      | Inr i \<Rightarrow>
          (case publish_request_new tr tc SPORT_MOD (move_payload i x y z) of
             (Inl e, tc1) \<Rightarrow> (Inl e, mc, tc1)
           | (Inr r, tc1) \<Rightarrow>
               (case status_code r of
                  Inl e \<Rightarrow> (Inl e, mc, tc1)
                | Inr c \<Rightarrow>
                    if c = 0 then (Inr True, mc\<lparr>is_moving := True\<rparr>, tc1 @ [Sleep duration])
                    else (Inr False, mc, tc1))))"

definition move ::
  "(string \<times> int) list \<Rightarrow> transport \<Rightarrow> MotionController \<Rightarrow> effect list
     \<Rightarrow> real \<Rightarrow> real \<Rightarrow> real \<Rightarrow> real \<Rightarrow> bool
     \<Rightarrow> (py_exception + bool) \<times> MotionController \<times> effect list" where
  "move cmds tr mc tc x y z duration verify =
     except_Exception (move_try cmds tr mc tc x y z duration verify)"

definition stop_try ::
  "(string \<times> int) list \<Rightarrow> transport \<Rightarrow> MotionController \<Rightarrow> effect list
     \<Rightarrow> (py_exception + bool) \<times> MotionController \<times> effect list" where
  "stop_try cmds tr mc tc =
     (case sport_cmd_item cmds ''StopMove'' of
        Inl e \<Rightarrow> (Inl e, mc, tc)
      | Inr i \<Rightarrow>
          (case publish_request_new tr tc SPORT_MOD (stop_payload i) of
             (Inl e, tc1) \<Rightarrow> (Inl e, mc, tc1)
           | (Inr r, tc1) \<Rightarrow>
               (case status_code r of
                  Inl e \<Rightarrow> (Inl e, mc, tc1)
                | Inr c \<Rightarrow>
                    if c = 0 then (Inr True, mc\<lparr>is_moving := False\<rparr>, tc1)
                    else (Inr False, mc, tc1))))"

definition stop ::
  "(string \<times> int) list \<Rightarrow> transport \<Rightarrow> MotionController \<Rightarrow> effect list
     \<Rightarrow> (py_exception + bool) \<times> MotionController \<times> effect list" where
  "stop cmds tr mc tc = except_Exception (stop_try cmds tr mc tc)"

text \<open>The convenience methods only choose the vector handed to \<^verbatim>\<open>move\<close>.\<close>

definition move_forward ::
  "(string \<times> int) list \<Rightarrow> transport \<Rightarrow> MotionController \<Rightarrow> effect list
     \<Rightarrow> real \<Rightarrow> real \<Rightarrow> bool \<Rightarrow> (py_exception + bool) \<times> MotionController \<times> effect list" where
  "move_forward cmds tr mc tc speed duration verify = move cmds tr mc tc speed 0 0 duration verify"

definition move_backward ::
  "(string \<times> int) list \<Rightarrow> transport \<Rightarrow> MotionController \<Rightarrow> effect list
     \<Rightarrow> real \<Rightarrow> real \<Rightarrow> bool \<Rightarrow> (py_exception + bool) \<times> MotionController \<times> effect list" where
  "move_backward cmds tr mc tc speed duration verify = move cmds tr mc tc (- speed) 0 0 duration verify"

definition move_left ::
  "(string \<times> int) list \<Rightarrow> transport \<Rightarrow> MotionController \<Rightarrow> effect list
     \<Rightarrow> real \<Rightarrow> real \<Rightarrow> bool \<Rightarrow> (py_exception + bool) \<times> MotionController \<times> effect list" where
  "move_left cmds tr mc tc speed duration verify = move cmds tr mc tc 0 speed 0 duration verify"

definition move_right ::
  "(string \<times> int) list \<Rightarrow> transport \<Rightarrow> MotionController \<Rightarrow> effect list
     \<Rightarrow> real \<Rightarrow> real \<Rightarrow> bool \<Rightarrow> (py_exception + bool) \<times> MotionController \<times> effect list" where
  "move_right cmds tr mc tc speed duration verify = move cmds tr mc tc 0 (- speed) 0 duration verify"

definition turn_left ::
  "(string \<times> int) list \<Rightarrow> transport \<Rightarrow> MotionController \<Rightarrow> effect list
     \<Rightarrow> real \<Rightarrow> real \<Rightarrow> bool \<Rightarrow> (py_exception + bool) \<times> MotionController \<times> effect list" where
  "turn_left cmds tr mc tc speed duration verify = move cmds tr mc tc 0 0 speed duration verify"

definition turn_right ::
  "(string \<times> int) list \<Rightarrow> transport \<Rightarrow> MotionController \<Rightarrow> effect list
     \<Rightarrow> real \<Rightarrow> real \<Rightarrow> bool \<Rightarrow> (py_exception + bool) \<times> MotionController \<times> effect list" where
  "turn_right cmds tr mc tc speed duration verify = move cmds tr mc tc 0 0 (- speed) duration verify"

text \<open>
  \<^verbatim>\<open>execute_sport_command(command_name, parameters, verify)\<close>. The name is looked
  up in \<^verbatim>\<open>SPORT_CMD\<close> when the method runs; \<^verbatim>\<open>if parameters:\<close> is false for
  \<^verbatim>\<open>None\<close> and for the empty dictionary, and then the payload has no
  \<^verbatim>\<open>"parameter"\<close> entry.
\<close>

definition truthy :: "py_dict option \<Rightarrow> bool" where
  "truthy parameters = (case parameters of None \<Rightarrow> False | Some d \<Rightarrow> d \<noteq> [])"

definition sport_payload :: "int \<Rightarrow> py_dict option \<Rightarrow> payload" where
  "sport_payload i parameters =
     (if truthy parameters then \<lparr>api_id = i, parameter = parameters\<rparr>
      else \<lparr>api_id = i, parameter = None\<rparr>)"

definition execute_sport_command_try ::
  "(string \<times> int) list \<Rightarrow> transport \<Rightarrow> MotionController \<Rightarrow> effect list
     \<Rightarrow> string \<Rightarrow> py_dict option \<Rightarrow> bool
     \<Rightarrow> (py_exception + bool) \<times> MotionController \<times> effect list" where
  "execute_sport_command_try cmds tr mc tc command_name parameters verify =
     (if command_name \<notin> fst ` set cmds then (Inr False, mc, tc)
      else
        (case sport_cmd_item cmds command_name of
           Inl e \<Rightarrow> (Inl e, mc, tc)
         | Inr i \<Rightarrow>
             (case publish_request_new tr tc SPORT_MOD (sport_payload i parameters) of
                (Inl e, tc1) \<Rightarrow> (Inl e, mc, tc1)
              | (Inr r, tc1) \<Rightarrow>
                  (case status_code r of
                     Inl e \<Rightarrow> (Inl e, mc, tc1)
                   | Inr c \<Rightarrow>
                       if c = 0 then (Inr True, mc, tc1 @ [Sleep 2])
                       else (Inr False, mc, tc1)))))"

definition execute_sport_command ::
  "(string \<times> int) list \<Rightarrow> transport \<Rightarrow> MotionController \<Rightarrow> effect list
     \<Rightarrow> string \<Rightarrow> py_dict option \<Rightarrow> bool
     \<Rightarrow> (py_exception + bool) \<times> MotionController \<times> effect list" where
  "execute_sport_command cmds tr mc tc command_name parameters verify =
     except_Exception (execute_sport_command_try cmds tr mc tc command_name parameters verify)"

section \<open>Strings\<close>

text \<open>
  \<^verbatim>\<open>str.lower\<close>, \<^verbatim>\<open>str.replace("_", "-")\<close> and \<^verbatim>\<open>str.title\<close> on ASCII text.
  \<^verbatim>\<open>title\<close> upper-cases a letter that does not follow a letter and lower-cases one
  that does, so \<^verbatim>\<open>"standup".title()\<close> is \<^verbatim>\<open>"Standup"\<close>.
\<close>

definition ascii_lowercase :: string where
  "ascii_lowercase = ''abcdefghijklmnopqrstuvwxyz''"

definition ascii_uppercase :: string where
  "ascii_uppercase = ''ABCDEFGHIJKLMNOPQRSTUVWXYZ''"

definition lower_char :: "char \<Rightarrow> char" where
  "lower_char c = (case map_of (zip ascii_uppercase ascii_lowercase) c of Some l \<Rightarrow> l | None \<Rightarrow> c)"

definition upper_char :: "char \<Rightarrow> char" where
  "upper_char c = (case map_of (zip ascii_lowercase ascii_uppercase) c of Some u \<Rightarrow> u | None \<Rightarrow> c)"

definition is_cased :: "char \<Rightarrow> bool" where
  "is_cased c = (c \<in> set ascii_lowercase \<or> c \<in> set ascii_uppercase)"

definition str_lower :: "string \<Rightarrow> string" where
  "str_lower s = map lower_char s"

definition str_replace_char :: "char \<Rightarrow> char \<Rightarrow> string \<Rightarrow> string" where
  "str_replace_char old new s = map (\<lambda>c. if c = old then new else c) s"

fun title_from :: "bool \<Rightarrow> string \<Rightarrow> string" where
  "title_from previous_is_cased [] = []"
| "title_from previous_is_cased (c # cs) =
     (if previous_is_cased then lower_char c else upper_char c) # title_from (is_cased c) cs"

definition str_title :: "string \<Rightarrow> string" where
  "str_title s = title_from False s"

section \<open>Robot\<close>

text \<open>
  \<^verbatim>\<open>Robot\<close> (src/sparky/robot.py) holds the controller in \<^verbatim>\<open>self.motion\<close>, which is
  \<^verbatim>\<open>None\<close> until \<^verbatim>\<open>connect\<close> succeeds and again after \<^verbatim>\<open>disconnect\<close>.
  The other collaborators are kept as opaque handles. \<^verbatim>\<open>Robot.move\<close> and
  \<^verbatim>\<open>Robot.command\<close> test \<^verbatim>\<open>self.motion\<close> before their \<^verbatim>\<open>try\<close>; inside it
  they call methods of the controller, and their handler is again
  \<^verbatim>\<open>except Exception: return False\<close>.
\<close>

record Robot =
  connection :: "nat option"
  motion :: "MotionController option"
  data_collector :: "nat option"
  stream_processor :: "nat option"
  analytics_engine :: "nat option"
  data_streaming_active :: bool

definition Robot_init :: Robot where
  "Robot_init = \<lparr>connection = None, motion = None, data_collector = None,
     stream_processor = None, analytics_engine = None, data_streaming_active = False\<rparr>"

definition Robot_move ::
  "(string \<times> int) list \<Rightarrow> transport \<Rightarrow> Robot \<Rightarrow> effect list
     \<Rightarrow> string \<Rightarrow> real \<Rightarrow> real \<Rightarrow> bool \<Rightarrow> (py_exception + bool) \<times> Robot \<times> effect list" where
  "Robot_move cmds tr rb tc direction speed duration verify =
     (case motion rb of
        None \<Rightarrow> (Inr False, rb, tc)
      | Some mc \<Rightarrow>
          except_Exception
          (let d = str_replace_char (CHR ''_'') (CHR ''-'') (str_lower direction);
               (b, mc', tc') =
                 (if d = ''forward'' then move_forward cmds tr mc tc speed duration verify
                  else if d = ''backward'' then move_backward cmds tr mc tc speed duration verify
                  else if d = ''left'' then move_left cmds tr mc tc speed duration verify
                  else if d = ''right'' then move_right cmds tr mc tc speed duration verify
                  else if d \<in> set [''turn-left'', ''turnleft''] then
                    turn_left cmds tr mc tc speed duration verify
                  else if d \<in> set [''turn-right'', ''turnright''] then
                    turn_right cmds tr mc tc speed duration verify
                  else if d = ''stop'' then stop cmds tr mc tc
                  else (Inr False, mc, tc))
           in (b, rb\<lparr>motion := Some mc'\<rparr>, tc')))"

definition Robot_command ::
  "(string \<times> int) list \<Rightarrow> transport \<Rightarrow> Robot \<Rightarrow> effect list
     \<Rightarrow> string \<Rightarrow> bool \<Rightarrow> (py_exception + bool) \<times> Robot \<times> effect list" where
  "Robot_command cmds tr rb tc command verify =
     (case motion rb of
        None \<Rightarrow> (Inr False, rb, tc)
      | Some mc \<Rightarrow>
          except_Exception
          (let (b, mc', tc') =
                 execute_sport_command cmds tr mc tc (str_title command) None verify
           in (b, rb\<lparr>motion := Some mc'\<rparr>, tc')))"

section \<open>BasicMovementTester.test_basic_movement\<close>

text \<open>
  examples/testing/basic_movement_test.py sends sport commands on the same transport,
  by api id. \<^verbatim>\<open>BASIC_MOVEMENTS\<close> is its table of nine commands, in the source's
  order; the \<^verbatim>\<open>description\<close> texts and the \<^verbatim>\<open>timestamp\<close> of a result are left
  out. The four status marks of a result are \<open>Untested\<close> (the initial mark),
  \<open>Accepted\<close>, \<open>Rejected\<close> and \<open>Blocked\<close>.
\<close>

record movement_info =
  info_id :: int
  info_priority :: string
  info_category :: string

definition BASIC_MOVEMENTS :: "(string \<times> movement_info) list" where
  "BASIC_MOVEMENTS =
     [(''Damp'', \<lparr>info_id = 1001, info_priority = ''High'', info_category = ''stance''\<rparr>),
      (''BalanceStand'', \<lparr>info_id = 1002, info_priority = ''High'', info_category = ''stance''\<rparr>),
      (''StopMove'', \<lparr>info_id = 1003, info_priority = ''High'', info_category = ''safety''\<rparr>),
      (''StandUp'', \<lparr>info_id = 1004, info_priority = ''High'', info_category = ''transition''\<rparr>),
      (''RecoveryStand'', \<lparr>info_id = 1006, info_priority = ''High'', info_category = ''safety''\<rparr>),
      (''Move'', \<lparr>info_id = 1008, info_priority = ''High'', info_category = ''locomotion''\<rparr>),
      (''StandDown'', \<lparr>info_id = 1005, info_priority = ''Medium'', info_category = ''transition''\<rparr>),
      (''Sit'', \<lparr>info_id = 1009, info_priority = ''Medium'', info_category = ''transition''\<rparr>),
      (''RiseSit'', \<lparr>info_id = 1010, info_priority = ''Medium'', info_category = ''transition''\<rparr>)]"

datatype test_status = Untested | Accepted | Rejected | Blocked

datatype result_note =
    Blocked_by_protection_system
  | Damp_reduces_leg_stiffness
  | Use_BalanceStand_or_RecoveryStand
  | Command_accepted_by_robot
  | Error_note int string
  | Firmware_limitation
  | Exception_note py_exception
  | Failed_after_all_attempts

record test_result =
  result_command :: string
  result_api_id :: int
  result_priority :: string
  result_category :: string
  result_status :: test_status
  result_attempts :: nat
  result_error_codes :: "int list"
  result_notes :: "result_note list"

definition get_execution_time :: "string \<Rightarrow> real" where
  "get_execution_time category =
     (case map_of [(''stance'', 2), (''safety'', 1), (''transition'', 4), (''locomotion'', 3)] category of
        Some t \<Rightarrow> t
      | None \<Rightarrow> 2)"

definition interpret_error_code :: "int \<Rightarrow> string" where
  "interpret_error_code code =
     (case map_of
        [(3203, ''Command not available in current motion mode (MCF mode limitation)''),
         (7002, ''AI mode not available in current firmware''),
         (7004, ''Motion mode switching restriction''),
         (3001, ''Robot not in correct state for this command''),
         (3002, ''Invalid command parameters''),
         (3004, ''Command execution timeout''),
         (3005, ''Command rejected - robot busy'')] code of
        Some m \<Rightarrow> m
      | None \<Rightarrow> ''Unknown error'')"

text \<open>
  The loop \<^verbatim>\<open>for attempt in range(max_attempts)\<close>, by the number of iterations
  left. An instance of \<^verbatim>\<open>Exception\<close> raised inside an iteration is noted and the
  loop goes on (\<^verbatim>\<open>except Exception as e\<close>); any other raise leaves the loop and the
  method; status \<open>0\<close> and the firmware codes 3203, 7002 and 7004 leave the loop.
\<close>

fun attempt_loop ::
  "transport \<Rightarrow> payload \<Rightarrow> string \<Rightarrow> nat \<Rightarrow> test_result \<Rightarrow> effect list
     \<Rightarrow> (py_exception + test_result) \<times> effect list" where
  "attempt_loop tr pl category 0 res tc = (Inr res, tc)"
| "attempt_loop tr pl category (Suc n) res tc =
     (let res1 = res\<lparr>result_attempts := result_attempts res + 1\<rparr>
      in case publish_request_new tr tc SPORT_MOD pl of
           (Inl e, tc1) \<Rightarrow>
             if is_Exception e then
               attempt_loop tr pl category n
                 (res1\<lparr>result_notes := result_notes res1 @ [Exception_note e]\<rparr>) tc1
             else (Inl e, tc1)
         | (Inr r, tc1) \<Rightarrow>
             (case status_code r of
                Inl e \<Rightarrow>
                  attempt_loop tr pl category n
                    (res1\<lparr>result_notes := result_notes res1 @ [Exception_note e]\<rparr>) tc1
              | Inr c \<Rightarrow>
                  if c = 0 then
                    (Inr (res1\<lparr>result_status := Accepted,
                          result_notes := result_notes res1 @ [Command_accepted_by_robot]\<rparr>),
                     tc1 @ [Sleep (get_execution_time category)]
                         @ (if category \<in> set [''transition'', ''safety''] then [Sleep 2] else []))
                  else
                    (let res2 = res1\<lparr>result_error_codes := result_error_codes res1 @ [c],
                                     result_notes := result_notes res1
                                        @ [Error_note c (interpret_error_code c)]\<rparr>
                     in if c \<in> set [3203, 7002, 7004] then
                          (Inr (res2\<lparr>result_status := Rejected,
                                result_notes := result_notes res2 @ [Firmware_limitation]\<rparr>), tc1)
                        else attempt_loop tr pl category n res2 tc1)))"

text \<open>
  \<^verbatim>\<open>test_basic_movement(command_name, parameters, max_attempts)\<close>. The lookup
  \<^verbatim>\<open>BASIC_MOVEMENTS[command_name]\<close> stands outside any \<^verbatim>\<open>try\<close>, so an unknown
  name raises. \<^verbatim>\<open>"Damp"\<close> returns before the loop. The number of attempts is a
  natural number: \<^verbatim>\<open>range\<close> of a number below one is empty.
\<close>

definition test_basic_movement ::
  "transport \<Rightarrow> effect list \<Rightarrow> string \<Rightarrow> py_dict option \<Rightarrow> nat
     \<Rightarrow> (py_exception + test_result) \<times> effect list" where
  "test_basic_movement tr tc command_name parameters max_attempts =
     (case map_of BASIC_MOVEMENTS command_name of
        None \<Rightarrow> (Inl (KeyError command_name), tc)
      | Some info \<Rightarrow>
          (let result = \<lparr>result_command = command_name, result_api_id = info_id info,
                          result_priority = info_priority info,
                          result_category = info_category info, result_status = Untested,
                          result_attempts = 0, result_error_codes = [], result_notes = []\<rparr>
           in if command_name = ''Damp'' then
                (Inr (result\<lparr>result_status := Blocked,
                             result_notes := [Blocked_by_protection_system,
                               Damp_reduces_leg_stiffness, Use_BalanceStand_or_RecoveryStand]\<rparr>), tc)
              else
                (case attempt_loop tr (sport_payload (info_id info) parameters)
                        (info_category info) max_attempts result tc of
                   (Inl e, tc1) \<Rightarrow> (Inl e, tc1)
                 | (Inr res, tc1) \<Rightarrow>
                     (let res' = (if result_status res = Untested then
                                    res\<lparr>result_status := Rejected,
                                        result_notes := result_notes res
                                           @ [Failed_after_all_attempts]\<rparr>
                                  else res)
                      in (Inr res', tc1 @ [Sleep 1])))))"

section \<open>Concrete tables, transports and states\<close>

text \<open>
  \<^verbatim>\<open>SPORT_CMD\<close> itself is the driver's. The entries of it that the repository
  records are the ids of \<^verbatim>\<open>BASIC_MOVEMENTS\<close>, among them \<^verbatim>\<open>"Damp": 1001\<close>; they
  serve as the table wherever a statement is evaluated.
\<close>

definition BASIC_SPORT_CMD :: "(string \<times> int) list" where
  "BASIC_SPORT_CMD = map (\<lambda>(name, info). (name, info_id info)) BASIC_MOVEMENTS"

definition accepting :: transport where
  "accepting tc tp pl = Reply (StatusCode 0)"

definition timing_out :: transport where
  "timing_out tc tp pl = Raises ''timeout''"

definition cancelling :: transport where
  "cancelling tc tp pl = RaisesBase ''CancelledError''"

definition refusing :: "int \<Rightarrow> transport" where
  "refusing c tc tp pl = Reply (StatusCode c)"

definition fresh_controller :: MotionController where
  "fresh_controller = \<lparr>conn = 0, current_mode = None, is_moving = False\<rparr>"

definition connected_robot :: Robot where
  "connected_robot = Robot_init\<lparr>connection := Some 0, motion := Some fresh_controller\<rparr>"

section \<open>The queueing subsystem described by the specification\<close>

text \<open>
  Modelled from the spec: the module \<^verbatim>\<open>sparky.core.action_queue\<close> (the action
  queue with its worker, the rate limiter, the safety monitor) and the method
  \<^verbatim>\<open>Robot.emergency_stop\<close> are imported and called by
  examples/testing/ultra_safe_queue_test.py but are not among the sources; the
  \<^verbatim>\<open>Robot\<close> of src/sparky/robot.py has neither a queue nor that method. Every
  definition of this section follows the wording of the specification (sections 3, 4
  and 6) and nothing else.
\<close>

text \<open>Modelled from the spec: the priority of an action, section 3; a smaller rank dispatches earlier.\<close>

datatype priority = Emergency | High | Normal | Low

fun rank :: "priority \<Rightarrow> nat" where
  "rank Emergency = 0"
| "rank High = 1"
| "rank Normal = 2"
| "rank Low = 3"

text \<open>Modelled from the spec: the kinds and the states of an action, section 3.\<close>

datatype action_kind = Movement | Posture | SportCommand | Stop

datatype action_state = Pending | Running | Completed | Failed | Cancelled

text \<open>Modelled from the spec: the safety state, section 3.\<close>

datatype safety_state = Safe | Caution | EmergencyStop | Recovering

text \<open>
  Modelled from the spec: an action, section 3, with the error code that section 7
  attaches to a failed one. The fields \<^verbatim>\<open>id\<close> and \<^verbatim>\<open>payload\<close> of the
  specification are \<open>action_id\<close> and \<open>action_payload\<close> here.
\<close>

record action =
  action_id :: nat
  kind :: action_kind
  priority :: priority
  action_payload :: string
  state :: action_state
  submitted_at :: real
  attempts :: nat
  max_attempts :: nat
  error_code :: "int option"

text \<open>
  Modelled from the spec: the configuration, section 3; its \<^verbatim>\<open>max_attempts\<close> is
  \<open>default_max_attempts\<close> here, the name \<open>max_attempts\<close> being the action's.
\<close>

record QueueConfig =
  max_queue_size :: nat
  min_dispatch_interval :: real
  default_max_attempts :: nat
  safety_check_timeout :: real

text \<open>
  Modelled from the spec: the Executor of section 6, an external collaborator with
  \<^verbatim>\<open>send(kind, payload) -> (success, error_code)\<close> and \<^verbatim>\<open>send_stop() -> success\<close>.
  Each call is recorded with the time it was made; the Executor may answer depending on
  the calls made before.
\<close>

datatype executor_call = Send real action_kind string | SendStop real

type_synonym executor_send = "executor_call list \<Rightarrow> action_kind \<Rightarrow> string \<Rightarrow> bool \<times> int option"

type_synonym executor_send_stop = "executor_call list \<Rightarrow> bool"

text \<open>
  Modelled from the spec: the state of one subsystem: the Pending actions in dispatch
  order, the actions that reached a final state, the safety state, the rate limiter's
  \<^verbatim>\<open>last_dispatch\<close>, the wall clock and the calls made to the Executor. The
  counters of \<^verbatim>\<open>Stats\<close> are left out.
\<close>

record subsystem =
  config :: QueueConfig
  queue :: "action list"
  retired :: "action list"
  safety :: safety_state
  last_dispatch :: "real option"
  clock :: real
  calls :: "executor_call list"

text \<open>
  Modelled from the spec: \<^verbatim>\<open>RateLimiter.acquire\<close>, section 4.3: it waits until
  \<^verbatim>\<open>now - last_dispatch >= min_dispatch_interval\<close> and then returns. The value is the
  time at which it returns.
\<close>

definition acquire :: "real \<Rightarrow> real option \<Rightarrow> real \<Rightarrow> real" where
  "acquire interval previous now =
     (case previous of
        None \<Rightarrow> now
      | Some l \<Rightarrow> if interval \<le> now - l then now else l + interval)"

text \<open>
  Modelled from the spec: re-enqueueing at the front of the action's priority tier,
  section 4.1 (d): behind every action of a higher priority, before every other one.
\<close>

fun requeue_front :: "action \<Rightarrow> action list \<Rightarrow> action list" where
  "requeue_front a [] = [a]"
| "requeue_front a (b # bs) =
     (if rank (priority b) < rank (priority a) then b # requeue_front a bs else a # b # bs)"

text \<open>
  Modelled from the spec: one iteration of the worker loop, section 4.1 (a) to (d).
  It does nothing while the safety state is \<open>EmergencyStop\<close> or the queue is empty;
  otherwise it passes the rate limiter, pops the first action and calls the Executor,
  which keeps it busy for \<open>d\<close>. On success the action is Completed; on failure
  \<^verbatim>\<open>attempts\<close> is incremented and the action goes back to the front of its tier if
  \<^verbatim>\<open>attempts < max_attempts\<close>, and is Failed with the error code otherwise. The
  mark Running, which the action carries while the call of the Executor lasts, is not
  visible between two iterations.
\<close>

definition worker_step :: "executor_send \<Rightarrow> real \<Rightarrow> subsystem \<Rightarrow> subsystem" where
  "worker_step send d s =
     (if safety s = EmergencyStop then s
      else
        (case queue s of
           [] \<Rightarrow> s
         | a # rest \<Rightarrow>
             (let t = acquire (min_dispatch_interval (config s)) (last_dispatch s) (clock s);
                  (ok, code) = send (calls s) (kind a) (action_payload a);
                  s1 = s\<lparr>last_dispatch := Some t, clock := t + d,
                         calls := calls s @ [Send t (kind a) (action_payload a)]\<rparr>
              in if ok then
                   s1\<lparr>queue := rest, retired := retired s @ [a\<lparr>state := Completed\<rparr>]\<rparr>
                 else
                   (let a' = a\<lparr>attempts := attempts a + 1, error_code := code\<rparr>
                    in if attempts a' < max_attempts a' then
                         s1\<lparr>queue := requeue_front (a'\<lparr>state := Pending\<rparr>) rest\<rparr>
                       else
                         s1\<lparr>queue := rest, retired := retired s @ [a'\<lparr>state := Failed\<rparr>]\<rparr>))))"

text \<open>
  Modelled from the spec: the single worker of section 5 running its loop, one
  iteration after the other; the list gives how long each call of the Executor takes.
\<close>

fun worker_run :: "executor_send \<Rightarrow> real list \<Rightarrow> subsystem \<Rightarrow> subsystem" where
  "worker_run send [] s = s"
| "worker_run send (d # ds) s = worker_run send ds (worker_step send d s)"

text \<open>Modelled from the spec: the number of dispatches among the Executor calls (stop calls are not dispatches).\<close>

fun sends :: "executor_call list \<Rightarrow> nat" where
  "sends [] = 0"
| "sends (Send t k p # cs) = Suc (sends cs)"
| "sends (SendStop t # cs) = sends cs"

text \<open>
  Modelled from the spec: \<^verbatim>\<open>SafetyMonitor.trigger_emergency\<close>, section 4.2: the state
  becomes \<open>EmergencyStop\<close> and every Pending action that is not a Stop is cancelled.
\<close>

definition trigger_emergency :: "string \<Rightarrow> subsystem \<Rightarrow> subsystem" where
  "trigger_emergency reason s =
     s\<lparr>safety := EmergencyStop,
       queue := filter (\<lambda>a. kind a = Stop) (queue s),
       retired := retired s
          @ map (\<lambda>a. a\<lparr>state := Cancelled\<rparr>) (filter (\<lambda>a. kind a \<noteq> Stop) (queue s))\<rparr>"

text \<open>
  Modelled from the spec: \<^verbatim>\<open>emergency_stop(reason) -> bool\<close>, sections 4.4 and 6: it
  calls the Executor's stop primitive directly and then
  \<^verbatim>\<open>SafetyMonitor.trigger_emergency\<close>; the result is the success of the stop call.
\<close>

definition emergency_stop :: "executor_send_stop \<Rightarrow> string \<Rightarrow> subsystem \<Rightarrow> bool \<times> subsystem" where
  "emergency_stop send_stop reason s =
     (let ok = send_stop (calls s);
          s1 = s\<lparr>calls := calls s @ [SendStop (clock s)]\<rparr>
      in (ok, trigger_emergency reason s1))"

text \<open>
  Modelled from the spec: an Executor that reports failure for every action, and an
  action at the head of a queue kept in priority order (nothing behind it has a higher
  priority).
\<close>

definition always_failing :: "executor_send \<Rightarrow> bool" where
  "always_failing send = (\<forall>cs k p. \<not> fst (send cs k p))"

definition heads_queue :: "action \<Rightarrow> action list \<Rightarrow> bool" where
  "heads_queue a rest = (\<forall>b\<in>set rest. rank (priority a) \<le> rank (priority b))"

definition dispatches :: "subsystem \<Rightarrow> bool" where
  "dispatches s = (safety s \<noteq> EmergencyStop \<and> queue s \<noteq> [])"

text \<open>Modelled from the spec: a small subsystem on which the statements are evaluated.\<close>

definition hello_action :: action where
  "hello_action = \<lparr>action_id = 1, kind = SportCommand, priority = Normal,
     action_payload = ''Hello'', state = Pending, submitted_at = 0, attempts = 0,
     max_attempts = 3, error_code = None\<rparr>"

definition stand_action :: action where
  "stand_action = \<lparr>action_id = 2, kind = Posture, priority = Low,
     action_payload = ''BalanceStand'', state = Pending, submitted_at = 0, attempts = 0,
     max_attempts = 3, error_code = None\<rparr>"

definition example_subsystem :: subsystem where
  "example_subsystem =
     \<lparr>config = \<lparr>max_queue_size = 10, min_dispatch_interval = 1 / 5,
                 default_max_attempts = 3, safety_check_timeout = 1\<rparr>,
      queue = [hello_action, stand_action], retired = [], safety = Safe,
      last_dispatch = None, clock = 0, calls = []\<rparr>"

definition failing_executor :: executor_send where
  "failing_executor cs k p = (False, Some 3203)"

definition succeeding_executor :: executor_send where
  "succeeding_executor cs k p = (True, None)"

definition stopping_executor :: executor_send_stop where
  "stopping_executor cs = True"

section \<open>The methods of the controller, outcome by outcome\<close>

text \<open>
  Each method is characterised by what the transport answers to its one request: the
  handler makes the raise of an \<^verbatim>\<open>Exception\<close>, a response without a status code and
  a non-zero status code indistinguishable to the caller, and lets any other raise
  through.
\<close>

lemmas try_defs =
  except_Exception_def publish_request_new_def status_code_def sport_cmd_item_def accepted_def
  refusal_def

lemma switch_motion_mode_result:
  "switch_motion_mode tr mc tc mode =
     (if mode = ''normal'' \<or> mode = ''ai'' then (Inr False, mc, tc)
      else if accepted tr tc MOTION_SWITCHER (switch_payload mode) then
        (Inr True, mc\<lparr>current_mode := Some mode\<rparr>,
         tc @ [Request MOTION_SWITCHER (switch_payload mode), Sleep 5])
      else (refusal tr tc MOTION_SWITCHER (switch_payload mode), mc,
            tc @ [Request MOTION_SWITCHER (switch_payload mode)]))"
  by (auto simp: switch_motion_mode_def switch_motion_mode_try_def try_defs
      split: outcome.splits response.splits)

lemma move_result:
  "move cmds tr mc tc x y z duration verify =
     (case map_of cmds ''Move'' of
        None \<Rightarrow> (Inr False, mc, tc)
      | Some i \<Rightarrow>
          if accepted tr tc SPORT_MOD (move_payload i x y z) then
            (Inr True, mc\<lparr>is_moving := True\<rparr>,
             tc @ [Request SPORT_MOD (move_payload i x y z), Sleep duration])
          else (refusal tr tc SPORT_MOD (move_payload i x y z), mc,
                tc @ [Request SPORT_MOD (move_payload i x y z)]))"
  by (auto simp: move_def move_try_def try_defs
      split: outcome.splits response.splits option.splits)

lemma stop_result:
  "stop cmds tr mc tc =
     (case map_of cmds ''StopMove'' of
        None \<Rightarrow> (Inr False, mc, tc)
      | Some i \<Rightarrow>
          if accepted tr tc SPORT_MOD (stop_payload i) then
            (Inr True, mc\<lparr>is_moving := False\<rparr>, tc @ [Request SPORT_MOD (stop_payload i)])
          else (refusal tr tc SPORT_MOD (stop_payload i), mc,
                tc @ [Request SPORT_MOD (stop_payload i)]))"
  by (auto simp: stop_def stop_try_def try_defs
      split: outcome.splits response.splits option.splits)

lemma execute_sport_command_result:
  "execute_sport_command cmds tr mc tc name ps verify =
     (case map_of cmds name of
        None \<Rightarrow> (Inr False, mc, tc)
      | Some i \<Rightarrow>
          if accepted tr tc SPORT_MOD (sport_payload i ps) then
            (Inr True, mc, tc @ [Request SPORT_MOD (sport_payload i ps), Sleep 2])
          else (refusal tr tc SPORT_MOD (sport_payload i ps), mc,
                tc @ [Request SPORT_MOD (sport_payload i ps)]))"
proof (cases "map_of cmds name")
  case None
  then have "name \<notin> fst ` set cmds"
    by (simp add: map_of_eq_None_iff)
  with None show ?thesis
    by (simp add: execute_sport_command_def execute_sport_command_try_def except_Exception_def)
next
  case (Some i)
  then have "name \<in> fst ` set cmds"
    by (metis map_of_eq_None_iff option.distinct(1))
  with Some show ?thesis
    by (auto simp: execute_sport_command_def execute_sport_command_try_def try_defs
        split: outcome.splits response.splits)
qed

text \<open>
  A name the table knows is published, whatever the parameters and whatever the
  transport answers afterwards.
\<close>

lemma known_command_is_published:
  assumes "map_of cmds name = Some i"
  shows "Request SPORT_MOD (sport_payload i ps)
           \<in> set (snd (snd (execute_sport_command cmds tr mc tc name ps verify)))"
  using assms by (simp add: execute_sport_command_result)

text \<open>
  A name the table does not know is answered \<open>False\<close> by the lookup of
  \<^verbatim>\<open>execute_sport_command\<close>, with nothing published and the controller as it was.
\<close>

lemma unknown_name_answered_False:
  assumes "name \<notin> fst ` set cmds"
  shows "execute_sport_command cmds tr mc tc name ps verify = (Inr False, mc, tc)"
proof -
  from assms have "map_of cmds name = None"
    by (simp add: map_of_eq_None_iff)
  then show ?thesis
    by (simp add: execute_sport_command_result)
qed

text \<open>
  When the transport raises an \<^verbatim>\<open>Exception\<close>, the body of the method raises and the
  handler answers; when it raises outside \<^verbatim>\<open>Exception\<close>, the raise leaves the
  method with the request already published.
\<close>

lemma move_try_raises:
  assumes "map_of cmds ''Move'' = Some i"
    and "tr tc SPORT_MOD (move_payload i x y z) = Raises m"
  shows "move_try cmds tr mc tc x y z duration verify =
           (Inl (TransportError m), mc, tc @ [Request SPORT_MOD (move_payload i x y z)])"
    and "move cmds tr mc tc x y z duration verify =
           (Inr False, mc, tc @ [Request SPORT_MOD (move_payload i x y z)])"
  using assms by (simp_all add: move_def move_try_def try_defs)

lemma move_lets_BaseException_through:
  assumes "map_of cmds ''Move'' = Some i"
    and "tr tc SPORT_MOD (move_payload i x y z) = RaisesBase m"
  shows "move cmds tr mc tc x y z duration verify =
           (Inl (BaseException_only m), mc, tc @ [Request SPORT_MOD (move_payload i x y z)])"
  using assms by (simp add: move_result accepted_def refusal_def)

lemma stop_lets_BaseException_through:
  assumes "map_of cmds ''StopMove'' = Some i"
    and "tr tc SPORT_MOD (stop_payload i) = RaisesBase m"
  shows "stop cmds tr mc tc =
           (Inl (BaseException_only m), mc, tc @ [Request SPORT_MOD (stop_payload i)])"
  using assms by (simp add: stop_result accepted_def refusal_def)

lemma execute_sport_command_lets_BaseException_through:
  assumes "map_of cmds name = Some i"
    and "tr tc SPORT_MOD (sport_payload i ps) = RaisesBase m"
  shows "execute_sport_command cmds tr mc tc name ps verify =
           (Inl (BaseException_only m), mc, tc @ [Request SPORT_MOD (sport_payload i ps)])"
  using assms by (simp add: execute_sport_command_result accepted_def refusal_def)

lemma move_refused:
  assumes "\<forall>pl. \<not> accepted tr tc SPORT_MOD pl" and "\<forall>pl. refusal tr tc SPORT_MOD pl = Inr False"
  shows "fst (move cmds tr mc tc x y z duration verify) = Inr False"
  using assms by (simp add: move_result split: option.splits)

lemma stop_refused:
  assumes "\<forall>pl. \<not> accepted tr tc SPORT_MOD pl" and "\<forall>pl. refusal tr tc SPORT_MOD pl = Inr False"
  shows "fst (stop cmds tr mc tc) = Inr False"
  using assms by (simp add: stop_result split: option.splits)

lemma execute_sport_command_refused:
  assumes "\<forall>pl. \<not> accepted tr tc SPORT_MOD pl" and "\<forall>pl. refusal tr tc SPORT_MOD pl = Inr False"
  shows "fst (execute_sport_command cmds tr mc tc name ps verify) = Inr False"
  using assms by (simp add: execute_sport_command_result split: option.splits)

lemma fst_except_Exception:
  "fst (except_Exception (r, s, tc)) =
     (case r of Inl e \<Rightarrow> if is_Exception e then Inr False else Inl e | Inr b \<Rightarrow> Inr b)"
  by (simp add: except_Exception_def split: sum.splits)

lemma Robot_move_refused:
  assumes "\<forall>pl. \<not> accepted tr tc SPORT_MOD pl" and "\<forall>pl. refusal tr tc SPORT_MOD pl = Inr False"
  shows "fst (Robot_move cmds tr rb tc direction speed duration verify) = Inr False"
proof (cases "motion rb")
  case None
  then show ?thesis by (simp add: Robot_move_def)
next
  case (Some mc)
  with move_refused[OF assms] stop_refused[OF assms] show ?thesis
    by (simp add: Robot_move_def Let_def split_beta fst_except_Exception move_forward_def
        move_backward_def move_left_def move_right_def turn_left_def turn_right_def)
qed

lemma Robot_command_refused:
  assumes "\<forall>pl. \<not> accepted tr tc SPORT_MOD pl" and "\<forall>pl. refusal tr tc SPORT_MOD pl = Inr False"
  shows "fst (Robot_command cmds tr rb tc command verify) = Inr False"
proof (cases "motion rb")
  case None
  then show ?thesis by (simp add: Robot_command_def)
next
  case (Some mc)
  with execute_sport_command_refused[OF assms] show ?thesis
    by (simp add: Robot_command_def split_beta fst_except_Exception)
qed

section \<open>Strings and tables evaluated\<close>

lemmas title_defs =
  str_title_def upper_char_def lower_char_def is_cased_def ascii_lowercase_def ascii_uppercase_def

lemma title_examples:
  "str_title ''damp'' = ''Damp''" "str_title ''wiggle'' = ''Wiggle''"
  "str_title ''standup'' = ''Standup''" "str_title ''hello'' = ''Hello''"
  "str_title ''BalanceStand'' = ''Balancestand''"
  by (simp_all add: title_defs)

lemma BASIC_SPORT_CMD_entries:
  "BASIC_SPORT_CMD =
     [(''Damp'', 1001), (''BalanceStand'', 1002), (''StopMove'', 1003), (''StandUp'', 1004),
      (''RecoveryStand'', 1006), (''Move'', 1008), (''StandDown'', 1005), (''Sit'', 1009),
      (''RiseSit'', 1010)]"
  by (simp add: BASIC_SPORT_CMD_def BASIC_MOVEMENTS_def)

text \<open>
  \<^verbatim>\<open>Robot.command\<close> title-cases the name before the lookup, and \<^verbatim>\<open>str.title\<close>
  lower-cases a capital inside a word: \<^verbatim>\<open>Robot.command("BalanceStand")\<close> looks up
  \<^verbatim>\<open>"Balancestand"\<close>, which is no key of the table, and answers \<open>False\<close> without
  publishing, although the table has \<^verbatim>\<open>"BalanceStand"\<close>.
  examples/testing/advanced_movement_test.py makes this very call and takes the answer
  \<open>False\<close> for a failed command.
\<close>

lemma Robot_command_BalanceStand:
  "Robot_command BASIC_SPORT_CMD accepting connected_robot [] ''BalanceStand'' True
     = (Inr False, connected_robot, [])"
  by (simp add: Robot_command_def connected_robot_def Robot_init_def title_examples
      execute_sport_command_result BASIC_SPORT_CMD_entries except_Exception_def)

text \<open>
  The one guard against \<^verbatim>\<open>"Damp"\<close> in the sources is the early return of
  \<^verbatim>\<open>test_basic_movement\<close>: whatever the transport, the parameters and the number of
  attempts, nothing is published.
\<close>

lemma test_basic_movement_blocks_Damp:
  "test_basic_movement tr tc ''Damp'' parameters n =
     (Inr \<lparr>result_command = ''Damp'', result_api_id = 1001, result_priority = ''High'',
           result_category = ''stance'', result_status = Blocked, result_attempts = 0,
           result_error_codes = [],
           result_notes = [Blocked_by_protection_system, Damp_reduces_leg_stiffness,
             Use_BalanceStand_or_RecoveryStand]\<rparr>, tc)"
  by (simp add: test_basic_movement_def BASIC_MOVEMENTS_def)

section \<open>The retry loop of the test script\<close>

text \<open>
  The only retry in the sources is the loop of \<^verbatim>\<open>test_basic_movement\<close>: it sends
  at most \<^verbatim>\<open>max_attempts\<close> times, one send right after the other, and gives up at
  once on a firmware code. \<^verbatim>\<open>execute_sport_command\<close> sends once
  (\<open>execute_sport_command_result\<close>).
\<close>

lemma attempt_loop_attempts_bounded:
  "attempt_loop tr pl category n res tc = (Inr res', tc')
     \<Longrightarrow> result_attempts res' \<le> result_attempts res + n"
proof (induction n arbitrary: res tc)
  case 0
  then show ?case by simp
next
  case (Suc n)
  show ?case
  proof (cases "tr tc SPORT_MOD pl")
    case (Raises m)
    with Suc.prems have "attempt_loop tr pl category n
        (res\<lparr>result_attempts := result_attempts res + 1,
             result_notes := result_notes res @ [Exception_note (TransportError m)]\<rparr>)
        (tc @ [Request SPORT_MOD pl]) = (Inr res', tc')"
      by (simp add: publish_request_new_def Let_def)
    from Suc.IH[OF this] show ?thesis by simp
  next
    case (RaisesBase m)
    with Suc.prems show ?thesis
      by (simp add: publish_request_new_def Let_def)
  next
    case (Reply r)
    show ?thesis
    proof (cases r)
      case Malformed
      with Reply Suc.prems have "attempt_loop tr pl category n
          (res\<lparr>result_attempts := result_attempts res + 1,
               result_notes := result_notes res @ [Exception_note ResponseError]\<rparr>)
          (tc @ [Request SPORT_MOD pl]) = (Inr res', tc')"
        by (simp add: publish_request_new_def status_code_def Let_def)
      from Suc.IH[OF this] show ?thesis by simp
    next
      case (StatusCode c)
      show ?thesis
      proof (cases "c = 0 \<or> c \<in> {3203, 7002, 7004}")
        case True
        with StatusCode Reply Suc.prems show ?thesis
          by (auto simp: publish_request_new_def status_code_def Let_def)
      next
        case False
        with StatusCode Reply Suc.prems have "attempt_loop tr pl category n
            (res\<lparr>result_attempts := result_attempts res + 1,
                 result_error_codes := result_error_codes res @ [c],
                 result_notes := result_notes res @ [Error_note c (interpret_error_code c)]\<rparr>)
            (tc @ [Request SPORT_MOD pl]) = (Inr res', tc')"
          by (simp add: publish_request_new_def status_code_def Let_def)
        from Suc.IH[OF this] show ?thesis by simp
      qed
    qed
  qed
qed

lemma attempt_loop_firmware_code_stops:
  assumes "tr tc SPORT_MOD pl = Reply (StatusCode c)" and "c \<in> {3203, 7002, 7004}"
  shows "attempt_loop tr pl category (Suc n) res tc =
     (Inr (res\<lparr>result_attempts := result_attempts res + 1,
          result_error_codes := result_error_codes res @ [c],
          result_notes := result_notes res
             @ [Error_note c (interpret_error_code c), Firmware_limitation],
          result_status := Rejected\<rparr>),
      tc @ [Request SPORT_MOD pl])"
  using assms by (auto simp: publish_request_new_def status_code_def Let_def)

lemma test_basic_movement_two_attempts:
  "test_basic_movement (refusing 3005) [] ''Sit'' None 2 =
     (Inr \<lparr>result_command = ''Sit'', result_api_id = 1009, result_priority = ''Medium'',
           result_category = ''transition'', result_status = Rejected, result_attempts = 2,
           result_error_codes = [3005, 3005],
           result_notes = [Error_note 3005 ''Command rejected - robot busy'',
             Error_note 3005 ''Command rejected - robot busy'', Failed_after_all_attempts]\<rparr>,
      [Request SPORT_MOD \<lparr>api_id = 1009, parameter = None\<rparr>,
       Request SPORT_MOD \<lparr>api_id = 1009, parameter = None\<rparr>, Sleep 1])"
  by (simp add: test_basic_movement_def BASIC_MOVEMENTS_def refusing_def sport_payload_def
      truthy_def publish_request_new_def status_code_def interpret_error_code_def Let_def
      numeral_2_eq_2)

section \<open>Claims about the motion controller and the robot\<close>

text \<open>
  \<^bold>\<open>C8.\<close> For the modes \<^verbatim>\<open>"normal"\<close> and \<^verbatim>\<open>"ai"\<close>, \<^verbatim>\<open>switch_motion_mode\<close>
  returns \<open>False\<close> and publishes nothing: controller and effect trace are unchanged.
  For every other mode exactly one request is published on \<^verbatim>\<open>MOTION_SWITCHER\<close>, and
  \<^verbatim>\<open>current_mode\<close> becomes the requested mode if and only if the reply carries
  status code \<open>0\<close>; otherwise the controller is unchanged and the method ends as
  \<open>refusal\<close> says.
\<close>

theorem switch_motion_mode_legacy_modes:
  "(mode \<in> {''normal'', ''ai''} \<longrightarrow> switch_motion_mode tr mc tc mode = (Inr False, mc, tc))
   \<and> (mode \<notin> {''normal'', ''ai''} \<longrightarrow>
        switch_motion_mode tr mc tc mode =
          (if accepted tr tc MOTION_SWITCHER (switch_payload mode) then
             (Inr True, mc\<lparr>current_mode := Some mode\<rparr>,
              tc @ [Request MOTION_SWITCHER (switch_payload mode), Sleep 5])
           else (refusal tr tc MOTION_SWITCHER (switch_payload mode), mc,
                 tc @ [Request MOTION_SWITCHER (switch_payload mode)])))"
  by (simp add: switch_motion_mode_result)

text \<open>The theorem at \<^verbatim>\<open>"ai"\<close> and at \<^verbatim>\<open>"mcf"\<close>, with a transport that accepts.\<close>

theorem switch_motion_mode_legacy_modes_witness:
  "switch_motion_mode accepting fresh_controller [] ''ai'' = (Inr False, fresh_controller, [])
   \<and> switch_motion_mode accepting fresh_controller [] ''mcf'' =
       (Inr True, fresh_controller\<lparr>current_mode := Some ''mcf''\<rparr>,
        [Request MOTION_SWITCHER (switch_payload ''mcf''), Sleep 5])"
  using switch_motion_mode_legacy_modes[where mode = "''ai''" and tr = accepting
      and mc = fresh_controller and tc = "[]"]
    switch_motion_mode_legacy_modes[where mode = "''mcf''" and tr = accepting
      and mc = fresh_controller and tc = "[]"]
  by (simp add: accepted_def accepting_def)

text \<open>
  \<^bold>\<open>C9.\<close> While \<^verbatim>\<open>self.motion\<close> is \<^verbatim>\<open>None\<close>, \<^verbatim>\<open>Robot.move\<close> and
  \<^verbatim>\<open>Robot.command\<close> return \<open>False\<close> for every direction, speed, duration and
  command; nothing is raised, the robot is unchanged and nothing is added to the
  effect trace.
\<close>

theorem not_connected_returns_False:
  assumes "motion rb = None"
  shows "Robot_move cmds tr rb tc direction speed duration verify = (Inr False, rb, tc)
       \<and> Robot_command cmds tr rb tc command verify = (Inr False, rb, tc)"
  using assms by (simp add: Robot_move_def Robot_command_def)

text \<open>The theorem at the robot as \<^verbatim>\<open>__init__\<close> leaves it.\<close>

theorem not_connected_returns_False_witness:
  "Robot_move BASIC_SPORT_CMD accepting Robot_init [] ''forward'' (1 / 2) 2 True
     = (Inr False, Robot_init, [])
   \<and> Robot_command BASIC_SPORT_CMD accepting Robot_init [] ''hello'' True
     = (Inr False, Robot_init, [])"
proof -
  have h: "motion Robot_init = None" by (simp add: Robot_init_def)
  show ?thesis
    using not_connected_returns_False[where rb = Robot_init and cmds = BASIC_SPORT_CMD
        and tr = accepting and tc = "[]" and direction = "''forward''" and speed = "1 / 2"
        and duration = 2 and verify = True and command = "''hello''", OF h]
    by simp
qed

text \<open>
  \<^bold>\<open>C10.\<close> After \<^verbatim>\<open>move\<close> the controller is the old one with \<^verbatim>\<open>is_moving\<close>
  set to \<open>True\<close> if the reply to the request carried status code \<open>0\<close>, and the old
  one untouched in every other case (non-zero status, response without status, any
  raise of the transport, \<^verbatim>\<open>"Move"\<close> missing from the table). The same holds for
  \<^verbatim>\<open>stop\<close> with \<open>False\<close>. No other field is written by either.
\<close>

theorem move_stop_touch_only_is_moving:
  "fst (snd (move cmds tr mc tc x y z duration verify)) =
     (if \<exists>i. map_of cmds ''Move'' = Some i \<and> accepted tr tc SPORT_MOD (move_payload i x y z)
      then mc\<lparr>is_moving := True\<rparr> else mc)
   \<and> fst (snd (stop cmds tr mc tc)) =
     (if \<exists>i. map_of cmds ''StopMove'' = Some i \<and> accepted tr tc SPORT_MOD (stop_payload i)
      then mc\<lparr>is_moving := False\<rparr> else mc)"
  by (simp add: move_result stop_result split: option.splits)

text \<open>
  \<^bold>\<open>C4.\<close> The claim says that every exception raised by the transport is turned
  into the result \<open>False\<close>. The handlers are \<^verbatim>\<open>except Exception\<close>: when the awaited
  request raises \<^verbatim>\<open>asyncio.CancelledError\<close>, which is a \<^verbatim>\<open>BaseException\<close> and
  no \<^verbatim>\<open>Exception\<close>, the raise leaves \<^verbatim>\<open>move\<close>, \<^verbatim>\<open>stop\<close> and
  \<^verbatim>\<open>execute_sport_command\<close>, and \<^verbatim>\<open>Robot.move\<close> and \<^verbatim>\<open>Robot.command\<close> after
  them, with the request published and the controller unchanged.
\<close>

theorem BaseException_leaves_the_methods:
  "move BASIC_SPORT_CMD cancelling fresh_controller [] (1 / 2) 0 0 2 True
     = (Inl (BaseException_only ''CancelledError''), fresh_controller,
        [Request SPORT_MOD (move_payload 1008 (1 / 2) 0 0)])
   \<and> stop BASIC_SPORT_CMD cancelling fresh_controller []
     = (Inl (BaseException_only ''CancelledError''), fresh_controller,
        [Request SPORT_MOD (stop_payload 1003)])
   \<and> execute_sport_command BASIC_SPORT_CMD cancelling fresh_controller [] ''Sit'' None True
     = (Inl (BaseException_only ''CancelledError''), fresh_controller,
        [Request SPORT_MOD \<lparr>api_id = 1009, parameter = None\<rparr>])
   \<and> Robot_move BASIC_SPORT_CMD cancelling connected_robot [] ''forward'' (1 / 2) 2 True
     = (Inl (BaseException_only ''CancelledError''), connected_robot,
        [Request SPORT_MOD (move_payload 1008 (1 / 2) 0 0)])
   \<and> Robot_command BASIC_SPORT_CMD cancelling connected_robot [] ''sit'' True
     = (Inl (BaseException_only ''CancelledError''), connected_robot,
        [Request SPORT_MOD \<lparr>api_id = 1009, parameter = None\<rparr>])"
  by (simp add: Robot_move_def Robot_command_def connected_robot_def Robot_init_def
      title_defs str_lower_def str_replace_char_def move_forward_def
      move_result stop_result execute_sport_command_result BASIC_SPORT_CMD_entries
      accepted_def refusal_def cancelling_def sport_payload_def truthy_def
      except_Exception_def)

text \<open>
  \<^bold>\<open>C4, as amended.\<close> If the transport does not answer the next sport request with
  status code \<open>0\<close> and does not raise outside \<^verbatim>\<open>Exception\<close> (so it raises an
  instance of \<^verbatim>\<open>Exception\<close>, or replies without a status code, or with a non-zero
  one), then \<^verbatim>\<open>move\<close>, \<^verbatim>\<open>stop\<close> and \<^verbatim>\<open>execute_sport_command\<close> return \<open>False\<close>,
  and so do \<^verbatim>\<open>Robot.move\<close> and \<^verbatim>\<open>Robot.command\<close>: nothing is raised to the
  caller.
\<close>

theorem transport_failure_returns_False:
  assumes "\<forall>pl. tr tc SPORT_MOD pl \<noteq> Reply (StatusCode 0)"
    and "\<forall>pl m. tr tc SPORT_MOD pl \<noteq> RaisesBase m"
  shows "fst (move cmds tr mc tc x y z duration verify) = Inr False
       \<and> fst (stop cmds tr mc tc) = Inr False
       \<and> fst (execute_sport_command cmds tr mc tc name ps verify) = Inr False
       \<and> fst (Robot_move cmds tr rb tc direction speed duration verify) = Inr False
       \<and> fst (Robot_command cmds tr rb tc command verify) = Inr False"
proof -
  from assms(1) have no: "\<forall>pl. \<not> accepted tr tc SPORT_MOD pl"
    by (simp add: accepted_def)
  from assms(2) have nb: "\<forall>pl. refusal tr tc SPORT_MOD pl = Inr False"
    by (simp add: refusal_def split: outcome.splits)
  show ?thesis
    by (simp add: move_refused[OF no nb] stop_refused[OF no nb]
        execute_sport_command_refused[OF no nb] Robot_move_refused[OF no nb]
        Robot_command_refused[OF no nb])
qed

text \<open>The theorem at a transport that raises a timeout, an \<^verbatim>\<open>Exception\<close>, on every request.\<close>

theorem transport_failure_returns_False_witness:
  "fst (move BASIC_SPORT_CMD timing_out fresh_controller [] (1 / 2) 0 0 2 True) = Inr False
   \<and> fst (stop BASIC_SPORT_CMD timing_out fresh_controller []) = Inr False
   \<and> fst (execute_sport_command BASIC_SPORT_CMD timing_out fresh_controller [] ''Sit'' None True)
       = Inr False
   \<and> fst (Robot_move BASIC_SPORT_CMD timing_out connected_robot [] ''forward'' (1 / 2) 2 True)
       = Inr False
   \<and> fst (Robot_command BASIC_SPORT_CMD timing_out connected_robot [] ''sit'' True) = Inr False"
proof -
  have h1: "\<forall>pl. timing_out [] SPORT_MOD pl \<noteq> Reply (StatusCode 0)"
    and h2: "\<forall>pl m. timing_out [] SPORT_MOD pl \<noteq> RaisesBase m"
    by (simp_all add: timing_out_def)
  show ?thesis
    using transport_failure_returns_False[where tr = timing_out and tc = "[]"
        and cmds = BASIC_SPORT_CMD
        and mc = fresh_controller and x = "1 / 2" and y = 0 and z = 0 and duration = 2
        and verify = True and name = "''Sit''" and ps = None and rb = connected_robot
        and direction = "''forward''" and speed = "1 / 2" and command = "''sit''", OF h1 h2]
    by simp
qed

text \<open>
  \<^bold>\<open>C1.\<close> The claim says that \<^verbatim>\<open>"Damp"\<close> never reaches the transport. The
  controller has no denylist: with the table entry \<^verbatim>\<open>"Damp": 1001\<close> and a transport
  that accepts, \<^verbatim>\<open>execute_sport_command("Damp")\<close> publishes api id 1001 and returns
  \<open>True\<close>, and so does \<^verbatim>\<open>Robot.command("damp")\<close> on a connected robot.
\<close>

theorem Damp_is_published:
  "execute_sport_command BASIC_SPORT_CMD accepting fresh_controller [] ''Damp'' None True
     = (Inr True, fresh_controller,
        [Request SPORT_MOD \<lparr>api_id = 1001, parameter = None\<rparr>, Sleep 2])
   \<and> Robot_command BASIC_SPORT_CMD accepting connected_robot [] ''damp'' True
     = (Inr True, connected_robot,
        [Request SPORT_MOD \<lparr>api_id = 1001, parameter = None\<rparr>, Sleep 2])"
  by (simp add: Robot_command_def connected_robot_def Robot_init_def title_examples
      execute_sport_command_result BASIC_SPORT_CMD_entries accepted_def accepting_def
      sport_payload_def truthy_def except_Exception_def)

section \<open>The queueing subsystem: rate limiter\<close>

lemma acquire_ge_now: "now \<le> acquire iv previous now"
  by (auto simp: acquire_def split: option.splits)

lemma acquire_ge_last: "l + iv \<le> acquire iv (Some l) now"
  by (auto simp: acquire_def)

lemma sends_append: "sends (xs @ ys) = sends xs + sends ys"
  by (induction xs rule: sends.induct) simp_all

lemma worker_step_idle: "\<not> dispatches s \<Longrightarrow> worker_step send d s = s"
  by (auto simp: worker_step_def dispatches_def split: list.splits)

lemma worker_step_dispatch:
  assumes "dispatches s"
  shows "last_dispatch (worker_step send d s) = Some (acquire (min_dispatch_interval (config s)) (last_dispatch s) (clock s))"
    and "clock (worker_step send d s) = acquire (min_dispatch_interval (config s)) (last_dispatch s) (clock s) + d"
    and "sends (calls (worker_step send d s)) = Suc (sends (calls s))"
    and "config (worker_step send d s) = config s"
  using assms
  by (auto simp: worker_step_def dispatches_def Let_def sends_append split: list.splits prod.splits)

lemma worker_step_sends_mono: "sends (calls s) \<le> sends (calls (worker_step send d s))"
  by (cases "dispatches s") (simp_all add: worker_step_idle worker_step_dispatch(3))

lemma worker_run_sends_mono: "sends (calls s) \<le> sends (calls (worker_run send ds s))"
proof (induction ds arbitrary: s)
  case Nil
  show ?case by simp
next
  case (Cons d ds)
  have "sends (calls s) \<le> sends (calls (worker_step send d s))"
    by (rule worker_step_sends_mono)
  also have "\<dots> \<le> sends (calls (worker_run send ds (worker_step send d s)))"
    by (rule Cons.IH)
  finally show ?case by simp
qed

lemma worker_run_no_send:
  "sends (calls (worker_run send ds s)) = sends (calls s) \<Longrightarrow> worker_run send ds s = s"
proof (induction ds arbitrary: s)
  case Nil
  show ?case by simp
next
  case (Cons d ds)
  show ?case
  proof (cases "dispatches s")
    case False
    with Cons show ?thesis by (simp add: worker_step_idle)
  next
    case True
    have "Suc (sends (calls s)) \<le> sends (calls (worker_run send ds (worker_step send d s)))"
      using worker_run_sends_mono[of "worker_step send d s" send ds]
      by (simp add: worker_step_dispatch(3)[OF True])
    with Cons.prems show ?thesis by simp
  qed
qed

lemma worker_run_spacing:
  assumes "\<forall>d\<in>set ds. 0 \<le> d"
    and "sends (calls (worker_run send ds s)) = sends (calls s) + Suc n"
  shows "\<exists>t. last_dispatch (worker_run send ds s) = Some t
           \<and> t \<le> clock (worker_run send ds s)
           \<and> acquire (min_dispatch_interval (config s)) (last_dispatch s) (clock s)
               + real n * min_dispatch_interval (config s) \<le> t"
  using assms
proof (induction ds arbitrary: s n)
  case Nil
  then show ?case by simp
next
  case (Cons d ds)
  let ?iv = "min_dispatch_interval (config s)"
  let ?s1 = "worker_step send d s"
  from Cons.prems(1) have d: "0 \<le> d" and ds: "\<forall>d\<in>set ds. 0 \<le> d" by simp_all
  show ?case
  proof (cases "dispatches s")
    case False
    then have "?s1 = s" by (rule worker_step_idle)
    with Cons.IH[OF ds, of s n] Cons.prems(2) show ?thesis by simp
  next
    case True
    let ?t1 = "acquire ?iv (last_dispatch s) (clock s)"
    note st = worker_step_dispatch[OF True, of send d]
    show ?thesis
    proof (cases n)
      case 0
      with Cons.prems(2) st(3) have same: "sends (calls (worker_run send ds ?s1)) = sends (calls ?s1)"
        by simp
      then have "worker_run send ds ?s1 = ?s1" by (rule worker_run_no_send)
      with 0 st(1,2) d show ?thesis by simp
    next
      case (Suc m)
      with Cons.prems(2) st(3) have "sends (calls (worker_run send ds ?s1)) = sends (calls ?s1) + Suc m"
        by simp
      from Cons.IH[OF ds this] obtain t where t: "last_dispatch (worker_run send ds ?s1) = Some t"
        "t \<le> clock (worker_run send ds ?s1)"
        "acquire (min_dispatch_interval (config ?s1)) (last_dispatch ?s1) (clock ?s1)
               + real m * min_dispatch_interval (config ?s1) \<le> t" by blast
      have "?t1 + ?iv \<le> acquire ?iv (Some ?t1) (?t1 + d)"
        by (rule acquire_ge_last)
      with t(3) st(1,2,4) have "?t1 + ?iv + real m * ?iv \<le> t" by simp
      with Suc have "?t1 + real n * ?iv \<le> t" by (simp add: algebra_simps)
      with t(1,2) show ?thesis by auto
    qed
  qed
qed

text \<open>
  \<^bold>\<open>C6.\<close> Let the worker run any number of loop iterations, each call of the Executor
  taking a non-negative time. If \<open>N \<ge> 2\<close> actions are dispatched during the run, the
  wall clock advances by at least \<open>(N - 1) * min_dispatch_interval\<close>, because every
  dispatch first passes \<^verbatim>\<open>acquire\<close>.
\<close>

theorem sequential_dispatches_rate_limited:
  assumes "\<forall>d\<in>set ds. 0 \<le> d"
    and "sends (calls (worker_run send ds s)) = sends (calls s) + N"
    and "2 \<le> N"
  shows "real (N - 1) * min_dispatch_interval (config s) \<le> clock (worker_run send ds s) - clock s"
proof -
  from assms(3) obtain n where N: "N = Suc n" by (cases N) simp_all
  from worker_run_spacing[OF assms(1) assms(2)[unfolded N]]
  obtain t where t: "t \<le> clock (worker_run send ds s)"
    "acquire (min_dispatch_interval (config s)) (last_dispatch s) (clock s)
       + real n * min_dispatch_interval (config s) \<le> t" by blast
  have "clock s \<le> acquire (min_dispatch_interval (config s)) (last_dispatch s) (clock s)"
    by (rule acquire_ge_now)
  with t N show ?thesis by simp
qed

text \<open>The theorem at two dispatches with an interval of a fifth of a second.\<close>

theorem sequential_dispatches_rate_limited_witness:
  "1 / 5 \<le> clock (worker_run succeeding_executor [0, 0] example_subsystem)
             - clock example_subsystem"
proof -
  have h1: "\<forall>d\<in>set [0, 0 :: real]. 0 \<le> d" by simp
  have h2: "sends (calls (worker_run succeeding_executor [0, 0] example_subsystem))
              = sends (calls example_subsystem) + 2"
    by (simp add: worker_step_def example_subsystem_def succeeding_executor_def Let_def
        sends_append)
  have h3: "(2::nat) \<le> 2" by simp
  from sequential_dispatches_rate_limited[where ds = "[0, 0]" and send = succeeding_executor
      and s = example_subsystem and N = 2, OF h1 h2 h3]
  show ?thesis by (simp add: example_subsystem_def)
qed

section \<open>The queueing subsystem: retries\<close>

text \<open>The front of a tier: behind the actions of higher priority, before all others.\<close>

lemma requeue_front_tier:
  "requeue_front a q =
     takeWhile (\<lambda>b. rank (priority b) < rank (priority a)) q @ a #
     dropWhile (\<lambda>b. rank (priority b) < rank (priority a)) q"
  by (induction q) simp_all

lemma requeue_front_head: "heads_queue a rest \<Longrightarrow> requeue_front a rest = a # rest"
  by (cases rest) (auto simp: heads_queue_def)

lemma worker_step_retry:
  assumes "\<not> fst (send (calls s) (kind a) (action_payload a))"
    and "safety s \<noteq> EmergencyStop" and "queue s = a # rest" and "heads_queue a rest"
    and "Suc (attempts a) < max_attempts a"
  shows "worker_step send d s =
     s\<lparr>last_dispatch := Some (acquire (min_dispatch_interval (config s)) (last_dispatch s) (clock s)),
       clock := acquire (min_dispatch_interval (config s)) (last_dispatch s) (clock s) + d,
       calls := calls s @ [Send (acquire (min_dispatch_interval (config s)) (last_dispatch s) (clock s))
                            (kind a) (action_payload a)],
       queue := a\<lparr>attempts := Suc (attempts a),
                  error_code := snd (send (calls s) (kind a) (action_payload a)),
                  state := Pending\<rparr> # rest\<rparr>"
proof -
  have "heads_queue (a\<lparr>attempts := Suc (attempts a),
          error_code := snd (send (calls s) (kind a) (action_payload a)), state := Pending\<rparr>) rest"
    using assms(4) by (simp add: heads_queue_def)
  moreover obtain ok c where sc: "send (calls s) (kind a) (action_payload a) = (ok, c)"
    by (cases "send (calls s) (kind a) (action_payload a)")
  moreover from assms(1) sc have "\<not> ok" by simp
  ultimately show ?thesis
    using assms(2,3,5) by (simp add: worker_step_def Let_def requeue_front_head)
qed

lemma worker_step_exhausted:
  assumes "\<not> fst (send (calls s) (kind a) (action_payload a))"
    and "safety s \<noteq> EmergencyStop" and "queue s = a # rest"
    and "\<not> Suc (attempts a) < max_attempts a"
  shows "worker_step send d s =
     s\<lparr>last_dispatch := Some (acquire (min_dispatch_interval (config s)) (last_dispatch s) (clock s)),
       clock := acquire (min_dispatch_interval (config s)) (last_dispatch s) (clock s) + d,
       calls := calls s @ [Send (acquire (min_dispatch_interval (config s)) (last_dispatch s) (clock s))
                            (kind a) (action_payload a)],
       queue := rest,
       retired := retired s @ [a\<lparr>attempts := Suc (attempts a),
                  error_code := snd (send (calls s) (kind a) (action_payload a)),
                  state := Failed\<rparr>]\<rparr>"
proof -
  obtain ok c where sc: "send (calls s) (kind a) (action_payload a) = (ok, c)"
    by (cases "send (calls s) (kind a) (action_payload a)")
  moreover from assms(1) sc have "\<not> ok" by simp
  ultimately show ?thesis
    using assms(2,3,4) by (simp add: worker_step_def Let_def)
qed

lemma worker_run_exhausts:
  assumes "always_failing send"
    and "safety s \<noteq> EmergencyStop" and "queue s = a # rest" and "heads_queue a rest"
    and "attempts a < max_attempts a"
    and "length ds = max_attempts a - attempts a"
  shows "queue (worker_run send ds s) = rest
     \<and> retired (worker_run send ds s) =
         retired s @ [a\<lparr>attempts := max_attempts a,
                        error_code := snd (send (butlast (calls (worker_run send ds s)))
                                            (kind a) (action_payload a)),
                        state := Failed\<rparr>]
     \<and> (\<exists>ts. length ts = length ds
           \<and> calls (worker_run send ds s) =
               calls s @ map (\<lambda>t. Send t (kind a) (action_payload a)) ts)"
  using assms(2-)
proof (induction ds arbitrary: s a)
  case Nil
  then show ?case by simp
next
  case (Cons d ds)
  let ?t = "acquire (min_dispatch_interval (config s)) (last_dispatch s) (clock s)"
  let ?c = "snd (send (calls s) (kind a) (action_payload a))"
  from assms(1) have fail: "\<not> fst (send (calls s) (kind a) (action_payload a))"
    by (simp add: always_failing_def)
  show ?case
  proof (cases "Suc (attempts a) < max_attempts a")
    case False
    with Cons.prems(4) have last: "Suc (attempts a) = max_attempts a"
      by linarith
    then have "max_attempts a - attempts a = 1" by linarith
    with Cons.prems(5) have "length ds = 0" by simp
    then have ds: "ds = []" by simp
    note s1 = worker_step_exhausted[where send = send and s = s and a = a and rest = rest and d = d,
        OF fail Cons.prems(1,2) False]
    have "length [?t] = length (d # ds)
        \<and> calls (worker_run send (d # ds) s) =
            calls s @ map (\<lambda>t. Send t (kind a) (action_payload a)) [?t]"
      using ds by (simp add: s1)
    then have "\<exists>ts. length ts = length (d # ds)
           \<and> calls (worker_run send (d # ds) s) =
               calls s @ map (\<lambda>t. Send t (kind a) (action_payload a)) ts"
      by blast
    then show ?thesis using last ds by (simp add: s1)
  next
    case True
    let ?a1 = "a\<lparr>attempts := Suc (attempts a), error_code := ?c, state := Pending\<rparr>"
    let ?s1 = "worker_step send d s"
    note s1 = worker_step_retry[where send = send and s = s and a = a and rest = rest and d = d,
        OF fail Cons.prems(1,2,3) True]
    have p1: "safety ?s1 \<noteq> EmergencyStop" "queue ?s1 = ?a1 # rest"
      using Cons.prems(1) by (simp_all add: s1)
    have p2: "heads_queue ?a1 rest" using Cons.prems(3) by (simp add: heads_queue_def)
    have p3: "attempts ?a1 < max_attempts ?a1" using True by simp
    have p4: "length ds = max_attempts ?a1 - attempts ?a1" using Cons.prems(5) by simp
    from Cons.IH[OF p1 p2 p3 p4] obtain ts where
      q: "queue (worker_run send ds ?s1) = rest"
      and r: "retired (worker_run send ds ?s1) =
         retired ?s1 @ [?a1\<lparr>attempts := max_attempts ?a1,
                        error_code := snd (send (butlast (calls (worker_run send ds ?s1)))
                                            (kind ?a1) (action_payload ?a1)),
                        state := Failed\<rparr>]"
      and ts: "length ts = length ds"
        "calls (worker_run send ds ?s1) = calls ?s1 @ map (\<lambda>t. Send t (kind ?a1) (action_payload ?a1)) ts"
      by blast
    have "calls (worker_run send (d # ds) s) =
            calls s @ map (\<lambda>t. Send t (kind a) (action_payload a)) (?t # ts)"
      using ts(2) by (simp add: s1)
    moreover have "length (?t # ts) = length (d # ds)" using ts(1) by simp
    ultimately have "\<exists>ts. length ts = length (d # ds)
           \<and> calls (worker_run send (d # ds) s) =
               calls s @ map (\<lambda>t. Send t (kind a) (action_payload a)) ts"
      by blast
    moreover have "retired ?s1 = retired s" by (simp add: s1)
    ultimately show ?thesis using q r by simp
  qed
qed

lemma worker_run_retries_at_front:
  assumes "always_failing send"
    and "safety s \<noteq> EmergencyStop" and "queue s = a # rest" and "heads_queue a rest"
    and "attempts a + k < max_attempts a"
    and "length ds = k"
  shows "queue (worker_run send ds s) =
           a\<lparr>attempts := attempts a + k,
             error_code := (if k = 0 then error_code a
                            else snd (send (butlast (calls (worker_run send ds s)))
                                       (kind a) (action_payload a))),
             state := (if k = 0 then state a else Pending)\<rparr> # rest
       \<and> retired (worker_run send ds s) = retired s
       \<and> safety (worker_run send ds s) \<noteq> EmergencyStop"
  using assms(2-)
proof (induction ds arbitrary: s a k)
  case Nil
  then show ?case by simp
next
  case (Cons d ds)
  from assms(1) have fail: "\<not> fst (send (calls s) (kind a) (action_payload a))"
    by (simp add: always_failing_def)
  from Cons.prems(5) obtain j where k: "k = Suc j" and j: "length ds = j"
    by (cases k) auto
  with Cons.prems(4) have more: "Suc (attempts a) < max_attempts a" by simp
  let ?c = "snd (send (calls s) (kind a) (action_payload a))"
  let ?a1 = "a\<lparr>attempts := Suc (attempts a), error_code := ?c, state := Pending\<rparr>"
  let ?s1 = "worker_step send d s"
  note s1 = worker_step_retry[where send = send and s = s and a = a and rest = rest and d = d,
      OF fail Cons.prems(1,2,3) more]
  have p1: "safety ?s1 \<noteq> EmergencyStop" "queue ?s1 = ?a1 # rest"
    using Cons.prems(1) by (simp_all add: s1)
  have p2: "heads_queue ?a1 rest" using Cons.prems(3) by (simp add: heads_queue_def)
  have p3: "attempts ?a1 + j < max_attempts ?a1" using Cons.prems(4) k by simp
  note ih = Cons.IH[OF p1 p2 p3 j]
  show ?case
  proof (cases "j = 0")
    case True
    with j have "ds = []" by simp
    with k True show ?thesis using Cons.prems(1) by (simp add: s1)
  next
    case False
    with ih k show ?thesis by (simp add: s1)
  qed
qed

text \<open>
  \<^bold>\<open>C5.\<close> Let the Executor report failure for every call, and let an action with
  attempts left stand at the head of the queue. Then the worker dispatches it
  \<open>max_attempts - attempts\<close> times in a row: after each failure but the last the
  action, with \<^verbatim>\<open>attempts\<close> incremented and state Pending, is back at the front of
  its priority tier (here the front of the queue) and nothing has been retired; after
  the last it has left the queue and is retired as Failed with \<^verbatim>\<open>attempts\<close> equal to
  \<^verbatim>\<open>max_attempts\<close> and with the error code of the last call attached.
\<close>

theorem failed_action_retried_until_max_attempts:
  assumes "always_failing send"
    and "safety s \<noteq> EmergencyStop" and "queue s = a # rest" and "heads_queue a rest"
    and "attempts a < max_attempts a"
    and "length ds = max_attempts a - attempts a"
  shows "(\<forall>k. 0 < k \<and> k < length ds \<longrightarrow>
            queue (worker_run send (take k ds) s) =
              a\<lparr>attempts := attempts a + k,
                error_code := snd (send (butlast (calls (worker_run send (take k ds) s)))
                                    (kind a) (action_payload a)),
                state := Pending\<rparr> # rest
            \<and> retired (worker_run send (take k ds) s) = retired s)
       \<and> queue (worker_run send ds s) = rest
       \<and> retired (worker_run send ds s) =
           retired s @ [a\<lparr>attempts := max_attempts a,
                          error_code := snd (send (butlast (calls (worker_run send ds s)))
                                              (kind a) (action_payload a)),
                          state := Failed\<rparr>]
       \<and> (\<exists>ts. length ts = max_attempts a - attempts a
             \<and> calls (worker_run send ds s) =
                 calls s @ map (\<lambda>t. Send t (kind a) (action_payload a)) ts)"
proof -
  have between: "queue (worker_run send (take k ds) s) =
              a\<lparr>attempts := attempts a + k,
                error_code := snd (send (butlast (calls (worker_run send (take k ds) s)))
                                    (kind a) (action_payload a)),
                state := Pending\<rparr> # rest
            \<and> retired (worker_run send (take k ds) s) = retired s"
    if k: "0 < k" "k < length ds" for k
  proof -
    from k assms(6) have lt: "attempts a + k < max_attempts a" by simp
    from k have len: "length (take k ds) = k" by simp
    from worker_run_retries_at_front[OF assms(1-4) lt len] k(1) show ?thesis by simp
  qed
  from worker_run_exhausts[OF assms] assms(6) between show ?thesis by simp
qed

text \<open>The theorem at an action with three attempts, followed in the queue by one of lower priority.\<close>

theorem failed_action_retried_until_max_attempts_witness:
  "queue (worker_run failing_executor [1, 1] example_subsystem)
     = [hello_action\<lparr>attempts := 2, error_code := Some 3203, state := Pending\<rparr>, stand_action]
   \<and> queue (worker_run failing_executor [1, 1, 1] example_subsystem) = [stand_action]
   \<and> retired (worker_run failing_executor [1, 1, 1] example_subsystem)
     = [hello_action\<lparr>attempts := 3, error_code := Some 3203, state := Failed\<rparr>]"
proof -
  have h1: "always_failing failing_executor"
    by (simp add: always_failing_def failing_executor_def)
  have h2: "safety example_subsystem \<noteq> EmergencyStop"
    and h3: "queue example_subsystem = hello_action # [stand_action]"
    by (simp_all add: example_subsystem_def)
  have h4: "heads_queue hello_action [stand_action]"
    by (simp add: heads_queue_def hello_action_def stand_action_def)
  have h5: "attempts hello_action < max_attempts hello_action"
    and h6: "length [1, 1, 1 :: real] = max_attempts hello_action - attempts hello_action"
    by (simp_all add: hello_action_def)
  note t = failed_action_retried_until_max_attempts[where send = failing_executor
      and s = example_subsystem and a = hello_action and rest = "[stand_action]"
      and ds = "[1, 1, 1]", OF h1 h2 h3 h4 h5 h6]
  from t have "0 < (2::nat) \<and> 2 < length [1, 1, 1 :: real] \<longrightarrow>
      queue (worker_run failing_executor (take 2 [1, 1, 1]) example_subsystem) =
        hello_action\<lparr>attempts := attempts hello_action + 2,
          error_code := snd (failing_executor
             (butlast (calls (worker_run failing_executor (take 2 [1, 1, 1]) example_subsystem)))
             (kind hello_action) (action_payload hello_action)),
          state := Pending\<rparr> # [stand_action]"
    by blast
  then have two: "queue (worker_run failing_executor [1, 1] example_subsystem)
     = [hello_action\<lparr>attempts := 2, error_code := Some 3203, state := Pending\<rparr>, stand_action]"
    by (simp add: failing_executor_def hello_action_def)
  from t have "queue (worker_run failing_executor [1, 1, 1] example_subsystem) = [stand_action]
    \<and> retired (worker_run failing_executor [1, 1, 1] example_subsystem) =
        retired example_subsystem @ [hello_action\<lparr>attempts := max_attempts hello_action,
          error_code := snd (failing_executor
             (butlast (calls (worker_run failing_executor [1, 1, 1] example_subsystem)))
             (kind hello_action) (action_payload hello_action)),
          state := Failed\<rparr>]"
    by blast
  then have three: "queue (worker_run failing_executor [1, 1, 1] example_subsystem) = [stand_action]
    \<and> retired (worker_run failing_executor [1, 1, 1] example_subsystem)
       = [hello_action\<lparr>attempts := 3, error_code := Some 3203, state := Failed\<rparr>]"
    by (simp add: failing_executor_def hello_action_def example_subsystem_def)
  from two three show ?thesis by simp
qed

section \<open>The queueing subsystem: emergency stop\<close>

text \<open>
  On the example subsystem an emergency stop calls the stop primitive at time \<open>0\<close>,
  cancels the two Pending actions and leaves the rate limiter alone.
\<close>

lemma emergency_stop_example:
  "emergency_stop stopping_executor ''test'' example_subsystem =
     (True, example_subsystem\<lparr>safety := EmergencyStop, queue := [],
        retired := [hello_action\<lparr>state := Cancelled\<rparr>, stand_action\<lparr>state := Cancelled\<rparr>],
        calls := [SendStop 0]\<rparr>)"
  by (simp add: emergency_stop_def trigger_emergency_def stopping_executor_def
      example_subsystem_def hello_action_def stand_action_def Let_def)

text \<open>
  \<^bold>\<open>C3.\<close> \<^verbatim>\<open>emergency_stop\<close> takes a reason and returns a truth value, the success
  of the Executor's stop primitive. In every state of the subsystem (whatever the queue
  holds, whatever the rate limiter and the safety state are) the call adds exactly the
  stop call to the Executor's calls, made at the current instant: no queued action is
  dispatched, and \<^verbatim>\<open>last_dispatch\<close> and the clock are as before, so neither the queue
  nor \<^verbatim>\<open>acquire\<close> was passed.
\<close>

theorem emergency_stop_calls_stop_directly:
  "fst (emergency_stop send_stop reason s) = send_stop (calls s)
   \<and> calls (snd (emergency_stop send_stop reason s)) = calls s @ [SendStop (clock s)]
   \<and> sends (calls (snd (emergency_stop send_stop reason s))) = sends (calls s)
   \<and> last_dispatch (snd (emergency_stop send_stop reason s)) = last_dispatch s
   \<and> clock (snd (emergency_stop send_stop reason s)) = clock s"
  by (simp add: emergency_stop_def trigger_emergency_def Let_def sends_append)

end
